theory Spec2Isabelle
  imports Main
begin

section \<open>Container platforms of ReFrame (reframe/core/containers.py)\<close>

text \<open>
  The module synthesises shell commands for four container runtimes. Nothing is executed:
  every method is string assembly over the attributes of one instance. The embedding keeps
  the attributes of the base class in a record, the four concrete classes as the
  constructors of a datatype (a method call dispatches on the constructor, as Python
  dispatches on the class), and every exception as a value of the type \<open>error\<close>.
\<close>

subsection \<open>Python strings\<close>

text \<open>
  \<open>str.join\<close>: the elements separated by \<open>sep\<close>; the empty list gives the empty string.
\<close>

fun join :: "string \<Rightarrow> string list \<Rightarrow> string" where
  "join sep [] = []"
| "join sep [x] = x"
| "join sep (x # y # ys) = x @ sep @ join sep (y # ys)"

text \<open>\<open>str.startswith\<close> on two strings.\<close>

definition startswith :: "string \<Rightarrow> string \<Rightarrow> bool" where
  "startswith s p = (take (length p) s = p)"

text \<open>
  An attribute declared \<open>TypedField(str, type(None))\<close> holds a string or \<open>None\<close>.
  Interpolating it in an f-string (or with \<open>%s\<close>) renders \<open>None\<close> as the text \<open>None\<close>;
  its truth value is false for \<open>None\<close> and for the empty string.
\<close>

fun fmt :: "string option \<Rightarrow> string" where
  "fmt None = ''None''"
| "fmt (Some s) = s"

fun truthy :: "string option \<Rightarrow> bool" where
  "truthy None = False"
| "truthy (Some s) = (s \<noteq> [])"

subsection \<open>Attributes and classes\<close>

datatype error =
    ContainerError string
  | ValueError string
  | AttributeError
  | TypeError

definition RFM_STAGEDIR :: string where
  "RFM_STAGEDIR = ''/rfm_workdir''"

text \<open>
  The attributes of \<open>ContainerPlatform\<close>. The field \<open>image'\<close> is the attribute \<open>image\<close>
  (the plain name is the image of a set under a function in HOL).
\<close>

record ContainerPlatform =
  image' :: "string option"
  command :: "string option"
  commands :: "string list"
  workdir :: "string option"
  mount_points :: "(string \<times> string) list"
  options :: "string list"
  pull_image :: bool

text \<open>
  The concrete classes. \<open>Sarus\<close> and \<open>Shifter\<close> add \<open>with_mpi\<close>, \<open>Singularity\<close> adds
  \<open>with_cuda\<close>; \<open>Docker\<close> adds nothing.
\<close>

datatype platform =
    Docker (attrs: ContainerPlatform)
  | Sarus (attrs: ContainerPlatform) (with_mpi: bool)
  | Shifter (attrs: ContainerPlatform) (with_mpi: bool)
  | Singularity (attrs: ContainerPlatform) (with_cuda: bool)

text \<open>\<open>ContainerPlatform.__init__\<close> and the constructors of the subclasses.\<close>

definition ContainerPlatform_init :: ContainerPlatform where
  "ContainerPlatform_init =
     \<lparr> image' = None, command = None, commands = [], workdir = Some RFM_STAGEDIR,
       mount_points = [], options = [], pull_image = True \<rparr>"

definition Docker_init :: platform where
  "Docker_init = Docker ContainerPlatform_init"

definition Sarus_init :: platform where
  "Sarus_init = Sarus ContainerPlatform_init False"

definition Shifter_init :: platform where
  "Shifter_init = Shifter ContainerPlatform_init False"

definition Singularity_init :: platform where
  "Singularity_init = Singularity ContainerPlatform_init False"

text \<open>
  Assignment to attributes of the base class on an instance of any class:
  \<open>p.commands = cs\<close> is \<open>with_attrs (\<lambda>b. b\<lparr>commands := cs\<rparr>) p\<close>.
\<close>

fun with_attrs :: "(ContainerPlatform \<Rightarrow> ContainerPlatform) \<Rightarrow> platform \<Rightarrow> platform" where
  "with_attrs f (Docker b) = Docker (f b)"
| "with_attrs f (Sarus b m) = Sarus (f b) m"
| "with_attrs f (Shifter b m) = Shifter (f b) m"
| "with_attrs f (Singularity b c) = Singularity (f b) c"

subsection \<open>\<open>validate\<close>\<close>

text \<open>
  \<open>ContainerPlatform.validate\<close>, inherited by every class: it raises
  \<open>ContainerError('no image specified')\<close> when \<open>image\<close> is \<open>None\<close> and otherwise returns
  without assigning anything. \<open>Inr\<close> carries the instance as the call leaves it.
\<close>

definition validate :: "platform \<Rightarrow> error + platform" where
  "validate p =
     (if image' (attrs p) = None then Inl (ContainerError ''no image specified'')
      else Inr p)"

subsection \<open>\<open>emit_prepare_commands\<close>\<close>

text \<open>
  For \<open>Sarus\<close> and \<open>Shifter\<close> the test is \<open>not self.pull_image or
  self.image.startswith('load/')\<close>: \<open>or\<close> evaluates its right operand only when
  \<open>pull_image\<close> is true, and there the attribute lookup \<open>startswith\<close> on \<open>None\<close> raises
  \<open>AttributeError\<close>.
\<close>

fun emit_prepare_commands :: "platform \<Rightarrow> error + string list" where
  "emit_prepare_commands (Docker b) =
     Inr (if pull_image b then [''docker pull '' @ fmt (image' b)] else [])"
| "emit_prepare_commands (Sarus b m) =
     (if \<not> pull_image b then Inr []
      else case image' b of
        None \<Rightarrow> Inl AttributeError
      | Some s \<Rightarrow> if startswith s ''load/'' then Inr [] else Inr [''sarus pull '' @ s])"
| "emit_prepare_commands (Shifter b m) =
     (if \<not> pull_image b then Inr []
      else case image' b of
        None \<Rightarrow> Inl AttributeError
      | Some s \<Rightarrow> if startswith s ''load/'' then Inr [] else Inr [''shifter pull '' @ s])"
| "emit_prepare_commands (Singularity b c) = Inr []"

subsection \<open>\<open>launch_command\<close>\<close>

text \<open>
  The list every \<open>launch_command\<close> builds in its local variable \<open>run_opts\<close> before it chooses
  what to return: one flag per mount point, then the flag of the class when it is switched
  on, then \<open>options\<close>.
\<close>

fun run_opts :: "platform \<Rightarrow> string list" where
  \<open>run_opts (Docker b) =
     map (\<lambda>mp. ''-v "'' @ fst mp @ ''":"'' @ snd mp @ ''"'') (mount_points b) @ options b\<close>
| \<open>run_opts (Sarus b m) =
     map (\<lambda>mp. ''--mount=type=bind,source="'' @ fst mp @ ''",destination="'' @ snd mp @ ''"'')
       (mount_points b)
     @ (if m then [''--mpi''] else []) @ options b\<close>
| \<open>run_opts (Shifter b m) =
     map (\<lambda>mp. ''--mount=type=bind,source="'' @ fst mp @ ''",destination="'' @ snd mp @ ''"'')
       (mount_points b)
     @ (if m then [''--mpi''] else []) @ options b\<close>
| \<open>run_opts (Singularity b c) =
     map (\<lambda>mp. ''-B"'' @ fst mp @ '':'' @ snd mp @ ''"'') (mount_points b)
     @ (if c then [''--nv''] else []) @ options b\<close>

text \<open>
  The inner payload of the \<open>commands\<close> branch, the same f-string in all four classes:
  \<open>bash -c 'cd {self.workdir}; {'; '.join(self.commands)}'\<close>.
\<close>

definition bash_c :: "ContainerPlatform \<Rightarrow> string" where
  \<open>bash_c b = ''bash -c 'cd '' @ fmt (workdir b) @ ''; '' @ join ''; '' (commands b) @ [CHR 0x27]\<close>

text \<open>
  The three returns of each class, in the order of the source: \<open>if self.command\<close>, then
  \<open>if self.commands\<close>, then the bare invocation. The call \<open>super().launch_command()\<close> runs
  the empty body of the abstract method; \<open>Docker\<close>'s local \<open>run_cmd\<close> is computed and never
  read. Neither has an effect, and neither is modelled.
\<close>

fun launch_command :: "platform \<Rightarrow> string" where
  "launch_command (Docker b) =
     (if truthy (command b) then
        ''docker run --rm '' @ join '' '' (run_opts (Docker b)) @ '' '' @ fmt (image' b)
          @ '' '' @ fmt (command b)
      else if commands b \<noteq> [] then
        ''docker run --rm '' @ join '' '' (run_opts (Docker b)) @ '' '' @ fmt (image' b)
          @ '' '' @ bash_c b
      else
        ''docker run --rm '' @ join '' '' (run_opts (Docker b)) @ '' '' @ fmt (image' b))"
| "launch_command (Sarus b m) =
     (if truthy (command b) then
        ''sarus run '' @ join '' '' (run_opts (Sarus b m)) @ '' '' @ fmt (image' b)
          @ '' '' @ fmt (command b)
      else if commands b \<noteq> [] then
        ''sarus run '' @ join '' '' (run_opts (Sarus b m)) @ '' '' @ fmt (image' b)
          @ '' '' @ bash_c b
      else
        ''sarus run '' @ join '' '' (run_opts (Sarus b m)) @ '' '' @ fmt (image' b))"
| "launch_command (Shifter b m) =
     (if truthy (command b) then
        ''shifter run '' @ join '' '' (run_opts (Shifter b m)) @ '' '' @ fmt (image' b)
          @ '' '' @ fmt (command b)
      else if commands b \<noteq> [] then
        ''shifter run '' @ join '' '' (run_opts (Shifter b m)) @ '' '' @ fmt (image' b)
          @ '' '' @ bash_c b
      else
        ''shifter run '' @ join '' '' (run_opts (Shifter b m)) @ '' '' @ fmt (image' b))"
| "launch_command (Singularity b c) =
     (if truthy (command b) then
        ''singularity exec '' @ join '' '' (run_opts (Singularity b c)) @ '' '' @ fmt (image' b)
          @ '' '' @ fmt (command b)
      else if commands b \<noteq> [] then
        ''singularity exec '' @ join '' '' (run_opts (Singularity b c)) @ '' '' @ fmt (image' b)
          @ '' '' @ bash_c b
      else
        ''singularity run '' @ join '' '' (run_opts (Singularity b c)) @ '' '' @ fmt (image' b))"

text \<open>
  What each \<open>launch_command\<close> appends after the image: the command, the \<open>bash -c\<close>
  wrapper around \<open>commands\<close>, or nothing. It is read off the three returns above and
  serves to state their common shape.
\<close>

definition payload :: "ContainerPlatform \<Rightarrow> string" where
  "payload b =
     (if truthy (command b) then '' '' @ fmt (command b)
      else if commands b \<noteq> [] then '' '' @ bash_c b
      else [])"

subsection \<open>\<open>ContainerPlatformField.__set__\<close>\<close>

text \<open>
  The values assigned to a field of this type: a string, an instance of a container
  platform, \<open>None\<close>, or an instance of any other class.
\<close>

datatype pyval = StrV string | PlatformV platform | NoneV | ObjV

text \<open>
  The objects bound in the module's namespace, which is what \<open>globals()\<close> returns: the
  attributes every module has (\<open>__name__\<close>, \<open>__doc__\<close>, ...), the imported modules
  \<open>abc\<close>, \<open>warnings\<close>, \<open>fields\<close> and \<open>typ\<close>, the imported class \<open>ContainerError\<close>, and
  the six classes the module defines.
\<close>

datatype global_obj =
    Module_attr
  | Module
  | Class_ContainerError
  | Class_ContainerPlatform
  | Class_Docker
  | Class_Sarus
  | Class_Shifter
  | Class_Singularity
  | Class_ContainerPlatformField

definition globals_tbl :: "(string \<times> global_obj) list" where
  "globals_tbl =
     [(''__name__'', Module_attr), (''__doc__'', Module_attr), (''__package__'', Module_attr),
      (''__loader__'', Module_attr), (''__spec__'', Module_attr), (''__file__'', Module_attr),
      (''__cached__'', Module_attr), (''__builtins__'', Module_attr),
      (''abc'', Module), (''warnings'', Module), (''fields'', Module), (''typ'', Module),
      (''ContainerError'', Class_ContainerError),
      (''ContainerPlatform'', Class_ContainerPlatform),
      (''Docker'', Class_Docker), (''Sarus'', Class_Sarus), (''Shifter'', Class_Shifter),
      (''Singularity'', Class_Singularity),
      (''ContainerPlatformField'', Class_ContainerPlatformField)]"

text \<open>
  Calling one of these objects with no argument. A concrete class runs its constructor.
  \<open>ContainerPlatform\<close> has abstract methods, so Python refuses to instantiate it with a
  \<open>TypeError\<close>; a module, a string or \<open>None\<close> is not callable, a \<open>TypeError\<close> again. The
  two remaining classes construct an object that is not a container platform.
\<close>

fun call :: "global_obj \<Rightarrow> error + pyval" where
  "call Class_Docker = Inr (PlatformV Docker_init)"
| "call Class_Sarus = Inr (PlatformV Sarus_init)"
| "call Class_Shifter = Inr (PlatformV Shifter_init)"
| "call Class_Singularity = Inr (PlatformV Singularity_init)"
| "call Class_ContainerPlatform = Inl TypeError"
| "call Class_ContainerError = Inr ObjV"
| "call Class_ContainerPlatformField = Inr ObjV"
| "call Module = Inl TypeError"
| "call Module_attr = Inl TypeError"

text \<open>
  Modelled from the spec: \<open>fields.TypedField.__set__\<close>, which the module inherits from
  \<open>reframe.core.fields\<close>, is not among the sources. The value is accepted unchanged after a
  type check: an instance of \<open>ContainerPlatform\<close> passes, and any other value passes when
  its type is one of the field's \<open>other_types\<close>, given here as the predicate \<open>other_types\<close>.
\<close>

definition TypedField_set :: "(pyval \<Rightarrow> bool) \<Rightarrow> pyval \<Rightarrow> error + pyval" where
  "TypedField_set other_types v =
     (case v of
        PlatformV p \<Rightarrow> Inr v
      | _ \<Rightarrow> if other_types v then Inr v else Inl TypeError)"

text \<open>
  \<open>ContainerPlatformField.__set__\<close>: a string is looked up in \<open>globals()\<close> and the object
  found is called; only the \<open>KeyError\<close> of a missing name is turned into the \<open>ValueError\<close>.
  The result is the value the field stores.
\<close>

definition ContainerPlatformField_set :: "(pyval \<Rightarrow> bool) \<Rightarrow> pyval \<Rightarrow> error + pyval" where
  "ContainerPlatformField_set other_types val =
     (case val of
        StrV name \<Rightarrow>
          (case map_of globals_tbl name of
             None \<Rightarrow> Inl (ValueError (''unknown container platform: '' @ name))
           | Some g \<Rightarrow>
               (case call g of
                  Inl e \<Rightarrow> Inl e
                | Inr v \<Rightarrow> TypedField_set other_types v))
      | _ \<Rightarrow> TypedField_set other_types val)"

section \<open>Properties\<close>

subsection \<open>Validation\<close>

text \<open>
  Claim C3. For an instance of any class and any values of its attributes, \<open>validate\<close>
  raises \<open>ContainerError\<close> with the message \<open>no image specified\<close> if and only if \<open>image\<close>
  is \<open>None\<close>, and it raises nothing else; when \<open>image\<close> is a string, the empty string
  included, it returns and leaves the instance as it was.
\<close>

theorem validate_iff_no_image:
  "((validate p = Inl (ContainerError ''no image specified'')) = (image' (attrs p) = None))
   \<and> (\<forall>e. validate p = Inl e \<longrightarrow> e = ContainerError ''no image specified'')
   \<and> (\<forall>s. image' (attrs p) = Some s \<longrightarrow> validate p = Inr p)"
  by (simp add: validate_def)

theorem validate_iff_no_image_witness:
  "validate (Sarus (ContainerPlatform_init\<lparr>image' := Some ''''\<rparr>) True)
     = Inr (Sarus (ContainerPlatform_init\<lparr>image' := Some ''''\<rparr>) True)
   \<and> validate Docker_init = Inl (ContainerError ''no image specified'')"
proof -
  let ?p = "Sarus (ContainerPlatform_init\<lparr>image' := Some []\<rparr>) True"
  have a: "image' (attrs ?p) = Some []" by simp
  have b: "image' (attrs Docker_init) = None"
    by (simp add: Docker_init_def ContainerPlatform_init_def)
  from validate_iff_no_image [of ?p] a have "validate ?p = Inr ?p" by blast
  moreover from validate_iff_no_image [of Docker_init] b
  have "validate Docker_init = Inl (ContainerError ''no image specified'')" by blast
  ultimately show ?thesis by blast
qed

subsection \<open>The shape of a launch command\<close>

text \<open>
  Facts about \<open>join\<close>: with a separator after every element before a given one and a
  separator before every element after it, the position of that element in the joined
  string is explicit.
\<close>

lemma join_Cons: "ys \<noteq> [] \<Longrightarrow> join sep (x # ys) = x @ sep @ join sep ys"
  by (cases ys) simp_all

lemma join_Cons_concat: "join sep (t # ys) = t @ concat (map (\<lambda>y. sep @ y) ys)"
  by (induction ys arbitrary: t) simp_all

lemma join_middle:
  "join sep (xs @ t # ys) = concat (map (\<lambda>x. x @ sep) xs) @ t @ concat (map (\<lambda>y. sep @ y) ys)"
proof (induction xs)
  case Nil
  show ?case by (simp add: join_Cons_concat)
next
  case (Cons x xs)
  have "join sep ((x # xs) @ t # ys) = x @ sep @ join sep (xs @ t # ys)"
    by (simp add: join_Cons)
  with Cons show ?case by simp
qed

text \<open>
  Every return of every class is the runtime and its subcommand, the joined options, the
  image and the payload, separated by single spaces.
\<close>

lemma launch_command_shape:
  "launch_command p =
     (case p of
        Docker b \<Rightarrow> ''docker run --rm ''
      | Sarus b m \<Rightarrow> ''sarus run ''
      | Shifter b m \<Rightarrow> ''shifter run ''
      | Singularity b c \<Rightarrow>
          (if truthy (command b) then ''singularity exec ''
           else if commands b \<noteq> [] then ''singularity exec ''
           else ''singularity run ''))
     @ join '' '' (run_opts p) @ '' '' @ fmt (image' (attrs p)) @ payload (attrs p)"
  by (cases p) (simp_all add: payload_def del: run_opts.simps)

subsection \<open>The three branches\<close>

text \<open>
  Claim C6. \<open>Singularity\<close> launches with the subcommand \<open>exec\<close> in the branch of
  \<open>command\<close> and in the branch of \<open>commands\<close>, and with \<open>run\<close> when neither is set;
  \<open>Docker\<close>, \<open>Sarus\<close> and \<open>Shifter\<close> launch with \<open>run\<close> in all three branches. In the
  default branch of all four classes the launch command ends with the image: nothing
  follows it, so there is no \<open>bash -c\<close> wrapper.
\<close>

theorem launch_verbs:
  "launch_command p =
     (case p of
        Docker b \<Rightarrow> ''docker run --rm ''
      | Sarus b m \<Rightarrow> ''sarus run ''
      | Shifter b m \<Rightarrow> ''shifter run ''
      | Singularity b c \<Rightarrow>
          (if truthy (command b) then ''singularity exec ''
           else if commands b \<noteq> [] then ''singularity exec ''
           else ''singularity run ''))
     @ join '' '' (run_opts p) @ '' '' @ fmt (image' (attrs p))
     @ (if truthy (command (attrs p)) then '' '' @ fmt (command (attrs p))
        else if commands (attrs p) \<noteq> [] then '' '' @ bash_c (attrs p)
        else [])"
  using launch_command_shape [of p] by (simp add: payload_def)

text \<open>
  Claim C5. For every class, when \<open>command\<close> is unset and \<open>commands\<close> is the non-empty
  list \<open>c1, c2, ...\<close>, the launch command ends with \<open>bash -c 'cd <workdir>; c1; c2; ...'\<close>:
  the payload is in single quotes, starts with the \<open>cd\<close> to the working directory, and
  every command follows a semicolon and a space.
\<close>

theorem commands_branch:
  assumes "command (attrs p) = None" and "commands (attrs p) = c1 # cs"
  shows \<open>launch_command p =
     (case p of
        Docker b \<Rightarrow> ''docker run --rm ''
      | Sarus b m \<Rightarrow> ''sarus run ''
      | Shifter b m \<Rightarrow> ''shifter run ''
      | Singularity b c \<Rightarrow> ''singularity exec '')
     @ join '' '' (run_opts p) @ '' '' @ fmt (image' (attrs p))
     @ '' bash -c 'cd '' @ fmt (workdir (attrs p)) @ ''; '' @ join ''; '' (c1 # cs) @ [CHR 0x27]
   \<and> join ''; '' (c1 # cs) = c1 @ concat (map (\<lambda>c. ''; '' @ c) cs)\<close>
proof -
  have "payload (attrs p) = '' '' @ bash_c (attrs p)"
    using assms by (simp add: payload_def)
  then show ?thesis
    using assms launch_command_shape [of p]
    by (cases p) (simp_all add: bash_c_def join_Cons_concat del: run_opts.simps)
qed

theorem commands_branch_witness:
  \<open>launch_command (Singularity (ContainerPlatform_init\<lparr>image' := Some ''img.sif'',
       commands := [''make'', ''make check'', ''ls'']\<rparr>) False)
   = ''singularity exec  img.sif bash -c 'cd /rfm_workdir; make; make check; ls'' @ [CHR 0x27]\<close>
proof -
  let ?p = "Singularity (ContainerPlatform_init\<lparr>image' := Some ''img.sif'',
       commands := [''make'', ''make check'', ''ls'']\<rparr>) False"
  have a: "command (attrs ?p) = None" by (simp add: ContainerPlatform_init_def)
  have b: "commands (attrs ?p) = ''make'' # [''make check'', ''ls'']" by simp
  from commands_branch [OF a b] show ?thesis
    by (simp add: ContainerPlatform_init_def RFM_STAGEDIR_def)
qed

text \<open>
  Claim C10. For every class, when the assembled run options are empty (no mount points,
  no options, and the flag of the class off), the launch command still interpolates the
  empty joined string: two consecutive spaces stand between the subcommand and the image,
  as in \<open>docker run --rm  <image>\<close> and \<open>singularity run  <image>\<close>.
\<close>

theorem empty_run_opts_two_spaces:
  assumes "mount_points (attrs p) = []" and "options (attrs p) = []"
    and "case p of Docker b \<Rightarrow> True | Sarus b m \<Rightarrow> \<not> m | Shifter b m \<Rightarrow> \<not> m
           | Singularity b c \<Rightarrow> \<not> c"
  shows "launch_command p =
     (case p of
        Docker b \<Rightarrow> ''docker run --rm''
      | Sarus b m \<Rightarrow> ''sarus run''
      | Shifter b m \<Rightarrow> ''shifter run''
      | Singularity b c \<Rightarrow>
          (if truthy (command b) then ''singularity exec''
           else if commands b \<noteq> [] then ''singularity exec''
           else ''singularity run''))
     @ ''  '' @ fmt (image' (attrs p)) @ payload (attrs p)"
proof -
  have "run_opts p = []"
    using assms by (cases p) simp_all
  then show ?thesis
    using launch_command_shape [of p] by (cases p) simp_all
qed

theorem empty_run_opts_two_spaces_witness:
  "launch_command (Docker (ContainerPlatform_init\<lparr>image' := Some ''img''\<rparr>))
     = ''docker run --rm  img''
   \<and> launch_command (Singularity (ContainerPlatform_init\<lparr>image' := Some ''img''\<rparr>) False)
     = ''singularity run  img''"
proof -
  let ?b = "ContainerPlatform_init\<lparr>image' := Some ''img''\<rparr>"
  have m: "mount_points (attrs (Docker ?b)) = []" "mount_points (attrs (Singularity ?b False)) = []"
    by (simp_all add: ContainerPlatform_init_def)
  have opt: "options (attrs (Docker ?b)) = []" "options (attrs (Singularity ?b False)) = []"
    by (simp_all add: ContainerPlatform_init_def)
  have d: "case Docker ?b of Docker b \<Rightarrow> True | Sarus b m \<Rightarrow> \<not> m | Shifter b m \<Rightarrow> \<not> m
           | Singularity b c \<Rightarrow> \<not> c" by simp
  have s: "case Singularity ?b False of Docker b \<Rightarrow> True | Sarus b m \<Rightarrow> \<not> m
           | Shifter b m \<Rightarrow> \<not> m | Singularity b c \<Rightarrow> \<not> c" by simp
  have "launch_command (Docker ?b) = ''docker run --rm  img''"
    using empty_run_opts_two_spaces [OF m(1) opt(1) d]
    by (simp add: ContainerPlatform_init_def payload_def)
  moreover have "launch_command (Singularity ?b False) = ''singularity run  img''"
    using empty_run_opts_two_spaces [OF m(2) opt(2) s]
    by (simp add: ContainerPlatform_init_def payload_def)
  ultimately show ?thesis by blast
qed

subsection \<open>Mount points and flags\<close>

text \<open>
  Claim C4. For every class and every list \<open>M\<close> of mount points, the launch command
  carries one mount flag per pair of \<open>M\<close>, in the order of \<open>M\<close> and ahead of every other
  option, in the syntax of the class: \<open>-v "<host>":"<container>"\<close> for \<open>Docker\<close>,
  \<open>--mount=type=bind,source="<host>",destination="<container>"\<close> for \<open>Sarus\<close> and
  \<open>Shifter\<close>, \<open>-B"<host>:<container>"\<close> for \<open>Singularity\<close>. The run options number
  \<open>len(M)\<close>, plus one when the flag of the class is on, plus the number of \<open>options\<close>. The
  \<open>Docker\<close> example of the specification gives the prepare command
  \<open>docker pull ubuntu:20.04\<close> and the launch command
  \<open>docker run --rm -v "/data":"/data" ubuntu:20.04 ls /data\<close>.
\<close>

theorem mount_flags:
  \<open>launch_command (Docker b) =
     ''docker run --rm ''
     @ join '' '' (map (\<lambda>mp. ''-v "'' @ fst mp @ ''":"'' @ snd mp @ ''"'') (mount_points b)
                   @ options b)
     @ '' '' @ fmt (image' b) @ payload b
   \<and> launch_command (Sarus b m) =
     ''sarus run ''
     @ join '' ''
         (map (\<lambda>mp. ''--mount=type=bind,source="'' @ fst mp @ ''",destination="'' @ snd mp @ ''"'')
            (mount_points b)
          @ (if m then [''--mpi''] else []) @ options b)
     @ '' '' @ fmt (image' b) @ payload b
   \<and> launch_command (Shifter b m) =
     ''shifter run ''
     @ join '' ''
         (map (\<lambda>mp. ''--mount=type=bind,source="'' @ fst mp @ ''",destination="'' @ snd mp @ ''"'')
            (mount_points b)
          @ (if m then [''--mpi''] else []) @ options b)
     @ '' '' @ fmt (image' b) @ payload b
   \<and> launch_command (Singularity b c) =
     (if truthy (command b) then ''singularity exec ''
      else if commands b \<noteq> [] then ''singularity exec ''
      else ''singularity run '')
     @ join '' ''
         (map (\<lambda>mp. ''-B"'' @ fst mp @ '':'' @ snd mp @ ''"'') (mount_points b)
          @ (if c then [''--nv''] else []) @ options b)
     @ '' '' @ fmt (image' b) @ payload b
   \<and> length (run_opts p) =
       length (mount_points (attrs p))
       + (case p of Docker b' \<Rightarrow> 0
          | Sarus b' m' \<Rightarrow> if m' then 1 else 0
          | Shifter b' m' \<Rightarrow> if m' then 1 else 0
          | Singularity b' c' \<Rightarrow> if c' then 1 else 0)
       + length (options (attrs p))
   \<and> emit_prepare_commands (Docker (ContainerPlatform_init\<lparr>image' := Some ''ubuntu:20.04'',
         mount_points := [(''/data'', ''/data'')], command := Some ''ls /data'',
         pull_image := True\<rparr>))
       = Inr [''docker pull ubuntu:20.04'']
   \<and> launch_command (Docker (ContainerPlatform_init\<lparr>image' := Some ''ubuntu:20.04'',
         mount_points := [(''/data'', ''/data'')], command := Some ''ls /data'',
         pull_image := True\<rparr>))
       = ''docker run --rm -v "/data":"/data" ubuntu:20.04 ls /data''\<close>
proof -
  have 1: "launch_command (Docker b) = ''docker run --rm '' @ join '' '' (run_opts (Docker b))
      @ '' '' @ fmt (image' b) @ payload b"
    using launch_command_shape [of "Docker b"] by simp
  have 2: "launch_command (Sarus b m) = ''sarus run '' @ join '' '' (run_opts (Sarus b m))
      @ '' '' @ fmt (image' b) @ payload b"
    using launch_command_shape [of "Sarus b m"] by simp
  have 3: "launch_command (Shifter b m) = ''shifter run '' @ join '' '' (run_opts (Shifter b m))
      @ '' '' @ fmt (image' b) @ payload b"
    using launch_command_shape [of "Shifter b m"] by simp
  have 4: "launch_command (Singularity b c) =
      (if truthy (command b) then ''singularity exec ''
       else if commands b \<noteq> [] then ''singularity exec ''
       else ''singularity run '')
      @ join '' '' (run_opts (Singularity b c)) @ '' '' @ fmt (image' b) @ payload b"
    using launch_command_shape [of "Singularity b c"] by (simp del: run_opts.simps)
  have 5: "length (run_opts p) =
       length (mount_points (attrs p))
       + (case p of Docker b' \<Rightarrow> 0
          | Sarus b' m' \<Rightarrow> if m' then 1 else 0
          | Shifter b' m' \<Rightarrow> if m' then 1 else 0
          | Singularity b' c' \<Rightarrow> if c' then 1 else 0)
       + length (options (attrs p))"
    by (cases p) simp_all
  have 6: "emit_prepare_commands (Docker (ContainerPlatform_init\<lparr>image' := Some ''ubuntu:20.04'',
         mount_points := [(''/data'', ''/data'')], command := Some ''ls /data'',
         pull_image := True\<rparr>))
       = Inr [''docker pull ubuntu:20.04'']"
    by simp
  have 7: \<open>launch_command (Docker (ContainerPlatform_init\<lparr>image' := Some ''ubuntu:20.04'',
         mount_points := [(''/data'', ''/data'')], command := Some ''ls /data'',
         pull_image := True\<rparr>))
       = ''docker run --rm -v "/data":"/data" ubuntu:20.04 ls /data''\<close>
    by (simp add: ContainerPlatform_init_def)
  show ?thesis
    apply (intro conjI)
    subgoal using 1 by simp
    subgoal using 2 by (simp only: run_opts.simps)
    subgoal using 3 by (simp only: run_opts.simps)
    subgoal using 4 by (simp only: run_opts.simps)
    subgoal by (rule 5)
    subgoal by (rule 6)
    subgoal by (rule 7)
    done
qed

text \<open>
  The entries of \<open>options\<close> are appended to the run options as they are, whatever the
  flag of the class says. With \<open>with_mpi\<close> false and \<open>options\<close> holding \<open>--mpi\<close>, the
  launch command of \<open>Sarus\<close> contains \<open>--mpi\<close>; with \<open>with_cuda\<close> false and \<open>options\<close>
  holding \<open>--nv\<close>, the launch command of \<open>Singularity\<close> contains \<open>--nv\<close>.
\<close>

theorem flag_off_token_counterexample:
  "launch_command (Sarus (ContainerPlatform_init\<lparr>image' := Some ''img'',
       options := [''--mpi'']\<rparr>) False)
     = ''sarus run --mpi img''
   \<and> launch_command (Singularity (ContainerPlatform_init\<lparr>image' := Some ''img'',
       options := [''--nv'']\<rparr>) False)
     = ''singularity run --nv img''"
  by (simp add: ContainerPlatform_init_def)

text \<open>
  Claim C7, amended. With \<open>with_mpi\<close> on, the launch commands of \<open>Sarus\<close> and \<open>Shifter\<close>
  contain \<open>--mpi\<close> after every mount flag (each followed by a space) and before every
  entry of \<open>options\<close> (each preceded by a space); with \<open>with_cuda\<close> on, the launch command
  of \<open>Singularity\<close> contains \<open>--nv\<close> in the same position. With the flag off the launch
  command puts nothing between the mount flags and \<open>options\<close>: between the subcommand
  and the image stand exactly the mount flags followed by the entries of \<open>options\<close>,
  joined by single spaces, and the token is one of them only if \<open>options\<close> itself
  holds it.
\<close>

theorem flag_position:
  \<open>launch_command (Sarus b True) =
     ''sarus run ''
     @ concat (map (\<lambda>mp. ''--mount=type=bind,source="'' @ fst mp @ ''",destination="'' @ snd mp
                          @ ''" '') (mount_points b))
     @ ''--mpi'' @ concat (map (\<lambda>opt. '' '' @ opt) (options b))
     @ '' '' @ fmt (image' b) @ payload b
   \<and> launch_command (Shifter b True) =
     ''shifter run ''
     @ concat (map (\<lambda>mp. ''--mount=type=bind,source="'' @ fst mp @ ''",destination="'' @ snd mp
                          @ ''" '') (mount_points b))
     @ ''--mpi'' @ concat (map (\<lambda>opt. '' '' @ opt) (options b))
     @ '' '' @ fmt (image' b) @ payload b
   \<and> launch_command (Singularity b True) =
     (if truthy (command b) then ''singularity exec ''
      else if commands b \<noteq> [] then ''singularity exec ''
      else ''singularity run '')
     @ concat (map (\<lambda>mp. ''-B"'' @ fst mp @ '':'' @ snd mp @ ''" '') (mount_points b))
     @ ''--nv'' @ concat (map (\<lambda>opt. '' '' @ opt) (options b))
     @ '' '' @ fmt (image' b) @ payload b
   \<and> launch_command (Sarus b False) =
     ''sarus run ''
     @ join '' ''
         (map (\<lambda>mp. ''--mount=type=bind,source="'' @ fst mp @ ''",destination="'' @ snd mp @ ''"'')
            (mount_points b) @ options b)
     @ '' '' @ fmt (image' b) @ payload b
   \<and> launch_command (Shifter b False) =
     ''shifter run ''
     @ join '' ''
         (map (\<lambda>mp. ''--mount=type=bind,source="'' @ fst mp @ ''",destination="'' @ snd mp @ ''"'')
            (mount_points b) @ options b)
     @ '' '' @ fmt (image' b) @ payload b
   \<and> launch_command (Singularity b False) =
     (if truthy (command b) then ''singularity exec ''
      else if commands b \<noteq> [] then ''singularity exec ''
      else ''singularity run '')
     @ join '' ''
         (map (\<lambda>mp. ''-B"'' @ fst mp @ '':'' @ snd mp @ ''"'') (mount_points b) @ options b)
     @ '' '' @ fmt (image' b) @ payload b
   \<and> (''--mpi'' \<notin> set (options b) \<longrightarrow>
        ''--mpi'' \<notin> set
          (map (\<lambda>mp. ''--mount=type=bind,source="'' @ fst mp @ ''",destination="'' @ snd mp @ ''"'')
             (mount_points b) @ options b))
   \<and> (''--nv'' \<notin> set (options b) \<longrightarrow>
        ''--nv'' \<notin> set
          (map (\<lambda>mp. ''-B"'' @ fst mp @ '':'' @ snd mp @ ''"'') (mount_points b) @ options b))\<close>
proof -
  have 1: "launch_command (Sarus b m) = ''sarus run '' @ join '' '' (run_opts (Sarus b m))
      @ '' '' @ fmt (image' b) @ payload b" for m
    using launch_command_shape [of "Sarus b m"] by simp
  have 2: "launch_command (Shifter b m) = ''shifter run '' @ join '' '' (run_opts (Shifter b m))
      @ '' '' @ fmt (image' b) @ payload b" for m
    using launch_command_shape [of "Shifter b m"] by simp
  have 3: "launch_command (Singularity b c) =
      (if truthy (command b) then ''singularity exec ''
       else if commands b \<noteq> [] then ''singularity exec ''
       else ''singularity run '')
      @ join '' '' (run_opts (Singularity b c)) @ '' '' @ fmt (image' b) @ payload b" for c
    using launch_command_shape [of "Singularity b c"] by (simp del: run_opts.simps)
  have 4: \<open>''--mpi'' \<notin> set (options b) \<longrightarrow>
        ''--mpi'' \<notin> set
          (map (\<lambda>mp. ''--mount=type=bind,source="'' @ fst mp @ ''",destination="'' @ snd mp @ ''"'')
             (mount_points b) @ options b)\<close>
    by auto
  have 5: \<open>''--nv'' \<notin> set (options b) \<longrightarrow>
        ''--nv'' \<notin> set
          (map (\<lambda>mp. ''-B"'' @ fst mp @ '':'' @ snd mp @ ''"'') (mount_points b) @ options b)\<close>
    by auto
  show ?thesis
    unfolding 1 2 3
    apply (intro conjI)
    subgoal by (simp add: join_middle comp_def)
    subgoal by (simp add: join_middle comp_def)
    subgoal by (simp add: join_middle comp_def)
    subgoal by simp
    subgoal by simp
    subgoal by simp
    subgoal by (rule 4)
    subgoal by (rule 5)
    done
qed

theorem flag_position_witness:
  \<open>launch_command (Sarus (ContainerPlatform_init\<lparr>image' := Some ''img'',
       mount_points := [(''/a'', ''/b''), (''/c'', ''/d'')], options := [''--x'', ''--y'']\<rparr>) True)
   = ''sarus run --mount=type=bind,source="/a",destination="/b" --mount=type=bind,source="/c",destination="/d" --mpi --x --y img''
   \<and> launch_command (Sarus (ContainerPlatform_init\<lparr>image' := Some ''img'',
       mount_points := [(''/a'', ''/b''), (''/c'', ''/d'')], options := [''--x'', ''--y'']\<rparr>) False)
   = ''sarus run --mount=type=bind,source="/a",destination="/b" --mount=type=bind,source="/c",destination="/d" --x --y img''
   \<and> ''--mpi'' \<notin> set
         (map (\<lambda>mp. ''--mount=type=bind,source="'' @ fst mp @ ''",destination="'' @ snd mp @ ''"'')
            [(''/a'', ''/b''), (''/c'', ''/d'')] @ [''--x'', ''--y''])
   \<and> ''--nv'' \<notin> set
         (map (\<lambda>mp. ''-B"'' @ fst mp @ '':'' @ snd mp @ ''"'')
            [(''/a'', ''/b''), (''/c'', ''/d'')] @ [''--x'', ''--y''])\<close>
proof -
  let ?b = "ContainerPlatform_init\<lparr>image' := Some ''img'',
       mount_points := [(''/a'', ''/b''), (''/c'', ''/d'')], options := [''--x'', ''--y'']\<rparr>"
  have h: "''--mpi'' \<notin> set (options ?b)" "''--nv'' \<notin> set (options ?b)" by simp_all
  have mo: "mount_points ?b = [(''/a'', ''/b''), (''/c'', ''/d'')]" "options ?b = [''--x'', ''--y'']"
    by simp_all
  have 1: \<open>launch_command (Sarus ?b True)
   = ''sarus run --mount=type=bind,source="/a",destination="/b" --mount=type=bind,source="/c",destination="/d" --mpi --x --y img''\<close>
    using flag_position [of ?b] by (simp add: payload_def ContainerPlatform_init_def)
  have 2: \<open>launch_command (Sarus ?b False)
   = ''sarus run --mount=type=bind,source="/a",destination="/b" --mount=type=bind,source="/c",destination="/d" --x --y img''\<close>
    using flag_position [of ?b] by (simp add: payload_def ContainerPlatform_init_def)
  have 3: \<open>''--mpi'' \<notin> set
         (map (\<lambda>mp. ''--mount=type=bind,source="'' @ fst mp @ ''",destination="'' @ snd mp @ ''"'')
            (mount_points ?b) @ options ?b)\<close>
    using flag_position [of ?b] h(1) by blast
  have 4: \<open>''--nv'' \<notin> set
         (map (\<lambda>mp. ''-B"'' @ fst mp @ '':'' @ snd mp @ ''"'') (mount_points ?b) @ options ?b)\<close>
    using flag_position [of ?b] h(2) by blast
  from 1 2 3 4 show ?thesis
    unfolding mo by blast
qed

subsection \<open>Precedence of \<open>command\<close> over \<open>commands\<close>\<close>

text \<open>
  Every class tests \<open>if self.command\<close>, the truth value of the attribute, so the empty
  string counts as unset. With \<open>command\<close> set to the empty string and \<open>commands\<close> holding
  \<open>ls\<close>, \<open>Docker\<close> runs the \<open>bash -c\<close> wrapper around \<open>commands\<close>, and the launch command
  changes with \<open>commands\<close>.
\<close>

theorem empty_command_counterexample:
  \<open>launch_command (Docker (ContainerPlatform_init\<lparr>image' := Some ''img'', command := Some '''',
       commands := [''ls'']\<rparr>))
     = ''docker run --rm  img bash -c 'cd /rfm_workdir; ls'' @ [CHR 0x27]
   \<and> launch_command (Docker (ContainerPlatform_init\<lparr>image' := Some ''img'', command := Some '''',
       commands := [''ls'']\<rparr>))
     \<noteq> launch_command (Docker (ContainerPlatform_init\<lparr>image' := Some ''img'',
       command := Some '''', commands := []\<rparr>))\<close>
  by (simp add: ContainerPlatform_init_def RFM_STAGEDIR_def bash_c_def)

text \<open>
  Claim C1, amended. For every class and every state in which \<open>command\<close> is a non-empty
  string, the launch command ends with that command as its payload and is the same
  whatever \<open>commands\<close> holds. A \<open>command\<close> that is the empty string is treated as unset:
  the launch command is the one of the same state with \<open>command\<close> set to \<open>None\<close>.
\<close>

theorem command_precedence:
  assumes "command (attrs p) = Some c" and "c \<noteq> []"
  shows "launch_command p =
     (case p of
        Docker b \<Rightarrow> ''docker run --rm ''
      | Sarus b m \<Rightarrow> ''sarus run ''
      | Shifter b m \<Rightarrow> ''shifter run ''
      | Singularity b w \<Rightarrow> ''singularity exec '')
     @ join '' '' (run_opts p) @ '' '' @ fmt (image' (attrs p)) @ '' '' @ c
   \<and> launch_command (with_attrs (\<lambda>b. b\<lparr>commands := cs\<rparr>) p) = launch_command p
   \<and> launch_command (with_attrs (\<lambda>b. b\<lparr>command := Some []\<rparr>) q)
       = launch_command (with_attrs (\<lambda>b. b\<lparr>command := None\<rparr>) q)"
proof -
  have pay: "payload (attrs p) = '' '' @ c"
    using assms by (simp add: payload_def)
  have 1: "launch_command p =
     (case p of
        Docker b \<Rightarrow> ''docker run --rm ''
      | Sarus b m \<Rightarrow> ''sarus run ''
      | Shifter b m \<Rightarrow> ''shifter run ''
      | Singularity b w \<Rightarrow> ''singularity exec '')
     @ join '' '' (run_opts p) @ '' '' @ fmt (image' (attrs p)) @ '' '' @ c"
    using assms launch_command_shape [of p] pay
    by (cases p) (simp_all del: run_opts.simps)
  have 2: "launch_command (with_attrs (\<lambda>b. b\<lparr>commands := cs\<rparr>) p) = launch_command p"
    using assms by (cases p) simp_all
  have 3: "launch_command (with_attrs (\<lambda>b. b\<lparr>command := Some []\<rparr>) q)
       = launch_command (with_attrs (\<lambda>b. b\<lparr>command := None\<rparr>) q)"
    by (cases q) (simp_all add: bash_c_def)
  from 1 2 3 show ?thesis by blast
qed

theorem command_precedence_witness:
  "launch_command (Shifter (ContainerPlatform_init\<lparr>image' := Some ''img'',
       command := Some ''hostname'', commands := [''ls'', ''pwd'']\<rparr>) True)
     = ''shifter run --mpi img hostname''
   \<and> launch_command (Shifter (ContainerPlatform_init\<lparr>image' := Some ''img'',
       command := Some ''hostname'', commands := []\<rparr>) True)
     = ''shifter run --mpi img hostname''"
proof -
  let ?p = "Shifter (ContainerPlatform_init\<lparr>image' := Some ''img'',
       command := Some ''hostname'', commands := [''ls'', ''pwd'']\<rparr>) True"
  have a: "command (attrs ?p) = Some ''hostname''" by simp
  have b: "''hostname'' \<noteq> []" by simp
  have 1: "launch_command ?p = ''shifter run --mpi img hostname''"
    using command_precedence [OF a b, of "[]" ?p]
    by (simp add: ContainerPlatform_init_def)
  have 2: "launch_command (with_attrs (\<lambda>b. b\<lparr>commands := []\<rparr>) ?p) = launch_command ?p"
    using command_precedence [OF a b, of "[]" ?p] by blast
  have 3: "with_attrs (\<lambda>b. b\<lparr>commands := []\<rparr>) ?p
      = Shifter (ContainerPlatform_init\<lparr>image' := Some ''img'',
          command := Some ''hostname'', commands := []\<rparr>) True"
    by simp
  from 1 2 3 show ?thesis by simp
qed

subsection \<open>Prepare commands\<close>

text \<open>
  \<open>Sarus\<close> right after construction has \<open>pull_image\<close> true and \<open>image\<close> \<open>None\<close>: none of
  the conditions for an empty result holds, and the call raises instead of returning a
  pull command.
\<close>

theorem prepare_unset_image_counterexample:
  "pull_image (attrs Sarus_init) \<and> image' (attrs Sarus_init) = None
   \<and> emit_prepare_commands Sarus_init = Inl AttributeError"
  by (simp add: Sarus_init_def ContainerPlatform_init_def)

text \<open>
  Claim C2, amended. \<open>emit_prepare_commands\<close> returns the empty list exactly when
  \<open>pull_image\<close> is false (\<open>Docker\<close>, \<open>Sarus\<close>, \<open>Shifter\<close>), or \<open>image\<close> is a string that
  starts with \<open>load/\<close> (\<open>Sarus\<close>, \<open>Shifter\<close>), or the class is \<open>Singularity\<close>. In every
  other state in which \<open>image\<close> is a string it returns the one command
  \<open><runtime> pull <image>\<close>; \<open>Docker\<close> does so in every other state, an unset image
  being rendered as \<open>None\<close>.
\<close>

theorem prepare_commands:
  "(emit_prepare_commands p = Inr []) =
     (case p of
        Docker b \<Rightarrow> \<not> pull_image b
      | Sarus b m \<Rightarrow>
          \<not> pull_image b \<or> (case image' b of None \<Rightarrow> False | Some s \<Rightarrow> startswith s ''load/'')
      | Shifter b m \<Rightarrow>
          \<not> pull_image b \<or> (case image' b of None \<Rightarrow> False | Some s \<Rightarrow> startswith s ''load/'')
      | Singularity b c \<Rightarrow> True)
   \<and> (\<forall>s. image' (attrs p) = Some s \<and> emit_prepare_commands p \<noteq> Inr [] \<longrightarrow>
        emit_prepare_commands p =
          Inr [(case p of
                  Docker b \<Rightarrow> ''docker''
                | Sarus b m \<Rightarrow> ''sarus''
                | Shifter b m \<Rightarrow> ''shifter''
                | Singularity b c \<Rightarrow> ''singularity'') @ '' pull '' @ s])
   \<and> (pull_image b \<longrightarrow> emit_prepare_commands (Docker b) = Inr [''docker pull '' @ fmt (image' b)])"
  by (cases p) (auto split: option.splits)

theorem prepare_commands_witness:
  "emit_prepare_commands (Sarus (ContainerPlatform_init\<lparr>image' := Some ''load/library/img''\<rparr>) False)
     = Inr []
   \<and> emit_prepare_commands (Shifter (ContainerPlatform_init\<lparr>image' := Some ''ubuntu:20.04''\<rparr>) False)
     = Inr [''shifter pull ubuntu:20.04'']
   \<and> emit_prepare_commands (Docker ContainerPlatform_init) = Inr [''docker pull None'']"
proof -
  let ?a = "Sarus (ContainerPlatform_init\<lparr>image' := Some ''load/library/img''\<rparr>) False"
  let ?b = "Shifter (ContainerPlatform_init\<lparr>image' := Some ''ubuntu:20.04''\<rparr>) False"
  have 1: "emit_prepare_commands ?a = Inr []"
    using prepare_commands [of ?a] by (simp add: startswith_def)
  have n: "emit_prepare_commands ?b \<noteq> Inr []"
    using prepare_commands [of ?b]
    by (simp add: startswith_def ContainerPlatform_init_def)
  have i: "image' (attrs ?b) = Some ''ubuntu:20.04''" by simp
  have 2: "emit_prepare_commands ?b = Inr [''shifter pull ubuntu:20.04'']"
    using prepare_commands [of ?b] i n by simp
  have p: "pull_image ContainerPlatform_init" by (simp add: ContainerPlatform_init_def)
  have 3: "emit_prepare_commands (Docker ContainerPlatform_init) = Inr [''docker pull None'']"
    using prepare_commands [of _ ContainerPlatform_init] p
    by (simp add: ContainerPlatform_init_def)
  from 1 2 3 show ?thesis by blast
qed

text \<open>
  Claim C9. The prepare commands of \<open>Sarus\<close> and \<open>Shifter\<close> fail exactly when \<open>pull_image\<close>
  is true and \<open>image\<close> is \<open>None\<close>, which is where \<open>startswith\<close> is looked up on \<open>None\<close>;
  the failure is an \<open>AttributeError\<close>. An instance that passes \<open>validate\<close> never fails
  there. \<open>Docker\<close> never fails: it interpolates whatever \<open>image\<close> holds, and an unset
  image gives \<open>docker pull None\<close>.
\<close>

theorem prepare_needs_image:
  "((\<exists>e. emit_prepare_commands p = Inl e) =
      (case p of
         Docker b \<Rightarrow> False
       | Sarus b m \<Rightarrow> pull_image b \<and> image' b = None
       | Shifter b m \<Rightarrow> pull_image b \<and> image' b = None
       | Singularity b c \<Rightarrow> False))
   \<and> (\<forall>e. emit_prepare_commands p = Inl e \<longrightarrow> e = AttributeError)
   \<and> (\<forall>q. validate p = Inr q \<longrightarrow> (\<exists>cs. emit_prepare_commands p = Inr cs))
   \<and> emit_prepare_commands (Docker b)
       = Inr (if pull_image b then [''docker pull '' @ fmt (image' b)] else [])
   \<and> emit_prepare_commands (Docker (b\<lparr>image' := None, pull_image := True\<rparr>))
       = Inr [''docker pull None'']"
  by (cases p) (auto simp: validate_def split: option.splits)

theorem prepare_needs_image_witness:
  "validate (Sarus (ContainerPlatform_init\<lparr>image' := Some ''img''\<rparr>) False)
     = Inr (Sarus (ContainerPlatform_init\<lparr>image' := Some ''img''\<rparr>) False)
   \<and> (\<exists>cs. emit_prepare_commands (Sarus (ContainerPlatform_init\<lparr>image' := Some ''img''\<rparr>) False)
         = Inr cs)
   \<and> emit_prepare_commands Shifter_init = Inl AttributeError"
proof -
  let ?p = "Sarus (ContainerPlatform_init\<lparr>image' := Some ''img''\<rparr>) False"
  have v: "validate ?p = Inr ?p" by (simp add: validate_def)
  have 1: "\<exists>cs. emit_prepare_commands ?p = Inr cs"
    using prepare_needs_image [of ?p] v by blast
  have "\<exists>e. emit_prepare_commands Shifter_init = Inl e"
    using prepare_needs_image [of Shifter_init]
    by (simp add: Shifter_init_def ContainerPlatform_init_def)
  then have 2: "emit_prepare_commands Shifter_init = Inl AttributeError"
    using prepare_needs_image [of Shifter_init] by blast
  from v 1 2 show ?thesis by blast
qed

subsection \<open>Resolving a platform by name\<close>

text \<open>
  What holds of the resolver: the name of a concrete class gives the instance its
  constructor builds, a name that \<open>globals()\<close> does not hold gives the \<open>ValueError\<close>, the
  match is case-sensitive, and an instance is stored as it is.
\<close>

lemma resolve_backend_names:
  "ContainerPlatformField_set other_types (StrV ''Docker'') = Inr (PlatformV Docker_init)"
  "ContainerPlatformField_set other_types (StrV ''Sarus'') = Inr (PlatformV Sarus_init)"
  "ContainerPlatformField_set other_types (StrV ''Shifter'') = Inr (PlatformV Shifter_init)"
  "ContainerPlatformField_set other_types (StrV ''Singularity'') = Inr (PlatformV Singularity_init)"
  by (simp_all add: ContainerPlatformField_set_def globals_tbl_def TypedField_set_def)

lemma resolve_unbound_name:
  "map_of globals_tbl name = None \<Longrightarrow>
     ContainerPlatformField_set other_types (StrV name)
       = Inl (ValueError (''unknown container platform: '' @ name))"
  by (simp add: ContainerPlatformField_set_def)

lemma resolve_case_sensitive:
  "ContainerPlatformField_set other_types (StrV ''docker'')
     = Inl (ValueError ''unknown container platform: docker'')"
  "ContainerPlatformField_set other_types (StrV ''Unknown'')
     = Inl (ValueError ''unknown container platform: Unknown'')"
  by (simp_all add: ContainerPlatformField_set_def globals_tbl_def)

lemma resolve_instance:
  "ContainerPlatformField_set other_types (PlatformV p) = Inr (PlatformV p)"
  by (simp add: ContainerPlatformField_set_def TypedField_set_def)

text \<open>
  Claim C8 asks that every string that does not name a concrete class fails with the
  \<open>ValueError\<close> \<open>unknown container platform: <name>\<close>. The lookup in \<open>globals()\<close> finds
  every name bound in the module, not only the four classes: the name of the abstract
  base class and the name of an imported module are found, the object is called, and the
  call fails with a \<open>TypeError\<close> that the handler of \<open>KeyError\<close> does not catch.
\<close>

theorem resolve_bound_non_backend_name:
  "ContainerPlatformField_set other_types (StrV ''ContainerPlatform'') = Inl TypeError
   \<and> ContainerPlatformField_set other_types (StrV ''abc'') = Inl TypeError
   \<and> ContainerPlatformField_set other_types (StrV ''ContainerPlatform'')
       \<noteq> Inl (ValueError ''unknown container platform: ContainerPlatform'')"
  by (simp add: ContainerPlatformField_set_def globals_tbl_def)

end
